theory Spec2Isabelle
  imports Complex_Main
begin

section \<open>Tensors, errors and configuration\<close>

text \<open>
  The attention modules of \<^verbatim>\<open>src/models/attn.py\<close> and the masks of
  \<^verbatim>\<open>src/utils/masking.py\<close>, embedded shallowly. A tensor is a nested list, outermost
  axis first; its entries are real numbers, that is, the arithmetic of the backend is
  taken without rounding. The values that the code introduces beyond the finite numbers
  (the \<^verbatim>\<open>-np.inf\<close> of a masked score and what scaling and softmax make of it) are
  kept symbolically in the type \<open>score\<close> below. Random draws of the backend
  (\<^verbatim>\<open>paddle.randint\<close>, the keep mask of \<^verbatim>\<open>nn.Dropout\<close>) are arguments of the
  functions that use them. Every call of the backend is read by the meaning that Paddle
  documents for it; a call that Paddle does not accept is the \<open>ValueError\<close> it raises.
\<close>

type_synonym tensor2 = "real list list"
type_synonym tensor4 = "real list list list list"

datatype py_error = AssertionError | ValueError | IndexError | ZeroDivisionError

text \<open>
  The fields that \<^verbatim>\<open>FullAttention.__init__\<close> and \<^verbatim>\<open>ProbAttention.__init__\<close> store
  (\<^verbatim>\<open>FullAttention\<close> accepts \<open>factor\<close> and drops it), with the \<open>training\<close> flag
  that every \<^verbatim>\<open>nn.Layer\<close> carries and \<^verbatim>\<open>nn.Dropout\<close> reads.
\<close>

record attention =
  mask_flag :: bool
  factor :: int
  scale :: "real option"
  attention_dropout :: real
  output_attention :: bool
  training :: bool

text \<open>
  \<^verbatim>\<open>__init__(self, mask_flag, factor, scale, attention_dropout, output_attention)\<close>
  of either class; a layer starts in training mode.
\<close>

definition init_attention :: "bool \<Rightarrow> int \<Rightarrow> real option \<Rightarrow> real \<Rightarrow> bool \<Rightarrow> attention" where
  "init_attention mask_flag' factor' scale' attention_dropout' output_attention' =
     \<lparr>mask_flag = mask_flag', factor = factor', scale = scale',
      attention_dropout = attention_dropout', output_attention = output_attention',
      training = True\<rparr>"

text \<open>\<^verbatim>\<open>x.shape\<close> of a four-axis tensor; an axis below an empty axis reads as 0.\<close>

definition dim1 :: "'a list list \<Rightarrow> nat" where
  "dim1 x = (case x of [] \<Rightarrow> 0 | r # _ \<Rightarrow> length r)"

definition shape4 :: "'a list list list list \<Rightarrow> nat \<times> nat \<times> nat \<times> nat" where
  "shape4 x = (length x, dim1 x, dim1 (concat x), dim1 (concat (concat x)))"

definition has_shape2 :: "'a list list \<Rightarrow> nat \<Rightarrow> nat \<Rightarrow> bool" where
  "has_shape2 x a b = (length x = a \<and> list_all (\<lambda>r. length r = b) x)"

definition has_shape3 :: "'a list list list \<Rightarrow> nat \<Rightarrow> nat \<Rightarrow> nat \<Rightarrow> bool" where
  "has_shape3 x a b c = (length x = a \<and> list_all (\<lambda>y. has_shape2 y b c) x)"

definition has_shape4 :: "'a list list list list \<Rightarrow> nat \<Rightarrow> nat \<Rightarrow> nat \<Rightarrow> nat \<Rightarrow> bool" where
  "has_shape4 x a b c d = (length x = a \<and> list_all (\<lambda>y. has_shape3 y b c d) x)"

section \<open>Context initialisation of ProbAttention\<close>

text \<open>
  \<^verbatim>\<open>V.mean(axis=-2)\<close> on one \<open>[L_V, D]\<close> block: the rows are added up componentwise and
  the total is divided by the number of rows. (Over an empty key axis the backend
  returns NaN, which a real number cannot say; what is proved below takes \<open>L_V > 0\<close>.)
\<close>

definition vadd :: "real list \<Rightarrow> real list \<Rightarrow> real list" where
  "vadd a b = map2 (+) a b"

definition mean_axis :: "nat \<Rightarrow> tensor2 \<Rightarrow> real list" where
  "mean_axis D rows = map (\<lambda>s. s / real (length rows)) (foldl vadd (replicate D 0) rows)"

text \<open>\<^verbatim>\<open>V.cumsum(axis=-2)\<close> on one \<open>[L_V, D]\<close> block: a running sum of the rows.\<close>

fun cumsum_from :: "real list \<Rightarrow> tensor2 \<Rightarrow> tensor2" where
  "cumsum_from acc [] = []"
| "cumsum_from acc (r # rs) = vadd acc r # cumsum_from (vadd acc r) rs"

definition cumsum_axis :: "tensor2 \<Rightarrow> tensor2" where
  "cumsum_axis rows = (case rows of [] \<Rightarrow> [] | r # rs \<Rightarrow> r # cumsum_from r rs)"

text \<open>
  \<^verbatim>\<open>ProbAttention._get_initial_context(self, V, L_Q)\<close>, with \<open>V\<close> of shape
  \<open>[B, H, L_V, D]\<close>. The \<^verbatim>\<open>assert\<close> of the masked branch is the \<open>AssertionError\<close>.
\<close>

definition get_initial_context :: "attention \<Rightarrow> tensor4 \<Rightarrow> nat \<Rightarrow> py_error + tensor4" where
  "get_initial_context self V L_Q =
     (case shape4 V of (B, H, L_V, D) \<Rightarrow>
        if \<not> mask_flag self then
          let V_sum = map (map (mean_axis D)) V
          in Inr (map (map (\<lambda>v. replicate L_Q v)) V_sum)
        else if L_Q \<noteq> L_V then Inl AssertionError
        else Inr (map (map cumsum_axis) V))"

section \<open>Scores, softmax and dropout\<close>

text \<open>
  A score after masking is a finite number or the \<^verbatim>\<open>-np.inf\<close> written by
  \<^verbatim>\<open>paddle.where\<close>; multiplying by a negative scale turns that into \<open>+inf\<close>, by
  zero into a NaN.
\<close>

datatype score = Fin real | NegInf | PosInf | NaN

fun scale_score :: "real \<Rightarrow> score \<Rightarrow> score" where
  "scale_score c (Fin x) = Fin (c * x)"
| "scale_score c NegInf = (if 0 < c then NegInf else if c < 0 then PosInf else NaN)"
| "scale_score c PosInf = (if 0 < c then PosInf else if c < 0 then NegInf else NaN)"
| "scale_score c NaN = NaN"

fun is_Fin :: "score \<Rightarrow> bool" where
  "is_Fin (Fin x) = True"
| "is_Fin s = False"

fun exp_score :: "score \<Rightarrow> real" where
  "exp_score (Fin x) = exp x"
| "exp_score s = 0"

text \<open>
  \<^verbatim>\<open>F.softmax(x, axis=-1)\<close> on one row. A row holding \<open>+inf\<close> or a NaN, and a
  nonempty row of \<open>-inf\<close> only, comes out as a row of NaN: that is \<open>None\<close>. Otherwise
  a \<open>-inf\<close> entry gets the weight 0 and the finite entries share the weight 1.
\<close>

definition softmax_row :: "score list \<Rightarrow> real list option" where
  "softmax_row xs =
     (if xs = [] then Some []
      else if list_all (\<lambda>s. is_Fin s \<or> s = NegInf) xs \<and> list_ex is_Fin xs
      then Some (map (\<lambda>s. exp_score s / sum_list (map exp_score xs)) xs)
      else None)"

text \<open>
  \<^verbatim>\<open>nn.Dropout(p)\<close> on one row of weights (mode \<^verbatim>\<open>upscale_in_train\<close>, the default):
  the identity outside training and for \<open>p = 0\<close>; in training an entry is kept and
  divided by \<open>1 - p\<close>, or set to 0, as the random keep mask \<open>keep\<close> says. A NaN stays.
\<close>

definition dropout :: "real \<Rightarrow> bool \<Rightarrow> (nat \<Rightarrow> bool) \<Rightarrow> real list option \<Rightarrow> real list option" where
  "dropout p train keep row =
     (if \<not> train \<or> p = 0 then row
      else map_option (\<lambda>w. map (\<lambda>s. if keep s then w ! s / (1 - p) else 0) [0..<length w]) row)"

text \<open>\<^verbatim>\<open>self.scale or 1./sqrt(E)\<close>: \<open>None\<close> and \<open>0.0\<close> are both false in Python.\<close>

definition the_scale :: "attention \<Rightarrow> nat \<Rightarrow> py_error + real" where
  "the_scale self E =
     (case scale self of
        Some c \<Rightarrow> if c \<noteq> 0 then Inr c
                  else if E = 0 then Inl ZeroDivisionError else Inr (1 / sqrt (real E))
      | None \<Rightarrow> if E = 0 then Inl ZeroDivisionError else Inr (1 / sqrt (real E)))"

section \<open>Masks\<close>

text \<open>\<^verbatim>\<open>paddle.ones([L, S], dtype="bool").triu(1)\<close>: true strictly above the diagonal.\<close>

definition triu1 :: "nat \<Rightarrow> nat \<Rightarrow> bool list list" where
  "triu1 L S = map (\<lambda>i. map (\<lambda>j. i < j) [0..<S]) [0..<L]"

text \<open>\<^verbatim>\<open>TriangularCausalMask(B, L).mask\<close>, of shape \<open>[B, 1, L, L]\<close>.\<close>

definition TriangularCausalMask :: "nat \<Rightarrow> nat \<Rightarrow> bool list list list list" where
  "TriangularCausalMask B L = replicate B [triu1 L L]"

text \<open>
  \<^verbatim>\<open>ProbMask(B, H, L, index, scores).mask\<close>, with \<open>S\<close> for \<^verbatim>\<open>scores.shape[-1]\<close>:
  the rows of the \<open>[L, S]\<close> triangle at the positions \<open>index[b][h]\<close>.
\<close>

definition ProbMask :: "nat \<Rightarrow> nat \<Rightarrow> nat \<Rightarrow> nat list list list \<Rightarrow> nat \<Rightarrow> bool list list list list" where
  "ProbMask B H L index S =
     (let mask_ex = replicate B (replicate H (triu1 L S))
      in map (\<lambda>b. map (\<lambda>h. map (\<lambda>i. mask_ex ! b ! h ! i) (index ! b ! h)) [0..<H]) [0..<B])"

text \<open>\<^verbatim>\<open>mask.tile([1, H, 1, 1])\<close>: the second axis repeated \<open>H\<close> times.\<close>

definition tile_heads :: "nat \<Rightarrow> bool list list list list \<Rightarrow> bool list list list list" where
  "tile_heads H m = map (\<lambda>mb. concat (replicate H mb)) m"

text \<open>\<^verbatim>\<open>paddle.where(mask, -np.inf * ones_like(scores), scores)\<close> on tensors of one shape.\<close>

definition where_masked :: "bool list list list list \<Rightarrow> tensor4 \<Rightarrow> score list list list list" where
  "where_masked m x = map2 (map2 (map2 (map2 (\<lambda>c v. if c then NegInf else Fin v)))) m x"

section \<open>Dense attention\<close>

definition dot :: "real list \<Rightarrow> real list \<Rightarrow> real" where
  "dot a b = sum_list (map2 (*) a b)"

text \<open>
  The contraction of one row of weights \<open>w\<close> with \<open>S\<close> value vectors of \<open>D\<close>
  components, as \<^verbatim>\<open>einsum("bhls,bshd->blhd", A, values)\<close> and
  \<^verbatim>\<open>matmul(attn, V)\<close> compute it for each row; \<open>v s d\<close> is component \<open>d\<close> of
  the value at key position \<open>s\<close>.
\<close>

definition weighted_sum :: "nat \<Rightarrow> nat \<Rightarrow> real list \<Rightarrow> (nat \<Rightarrow> nat \<Rightarrow> real) \<Rightarrow> real list" where
  "weighted_sum S D w v = map (\<lambda>d. sum_list (map (\<lambda>s. w ! s * v s d) [0..<S])) [0..<D]"

text \<open>
  \<^verbatim>\<open>FullAttention.forward(queries, keys, values, attn_mask)\<close>, with \<open>queries\<close> of shape
  \<open>[B, L, H, E]\<close>, \<open>keys\<close> \<open>[B, S, H, E]\<close>, \<open>values\<close> \<open>[B, S, H, D]\<close>; \<open>keep b h l\<close>
  is the random keep mask that the dropout draws for row \<open>l\<close> of head \<open>h\<close> of batch \<open>b\<close>.
  A shape that the two \<^verbatim>\<open>einsum\<close> calls or \<^verbatim>\<open>paddle.where\<close> refuse is the
  \<open>ValueError\<close> (shapes that differ are refused: no broadcasting of an axis of length 1).
  The context comes back as \<open>[B, L, H]\<close> rows and the weights as \<open>[B, H, L]\<close> rows,
  a row of NaN being \<open>None\<close>.
\<close>

definition FullAttention_forward ::
  "attention \<Rightarrow> tensor4 \<Rightarrow> tensor4 \<Rightarrow> tensor4 \<Rightarrow> bool list list list list option \<Rightarrow>
   (nat \<Rightarrow> nat \<Rightarrow> nat \<Rightarrow> nat \<Rightarrow> bool) \<Rightarrow>
   py_error + (real list option list list list \<times> real list option list list list option)" where
  "FullAttention_forward self queries keys values attn_mask keep =
     (case shape4 queries of (B, L, H, E) \<Rightarrow>
     (case shape4 values of (B', S, H', D) \<Rightarrow>
     (case the_scale self E of
        Inl err \<Rightarrow> Inl err
      | Inr c \<Rightarrow>
         (if \<not> (has_shape4 queries B L H E \<and> has_shape4 keys B S H E \<and> has_shape4 values B S H D)
          then Inl ValueError
          else
            let scores = map (\<lambda>b. map (\<lambda>h. map (\<lambda>l. map (\<lambda>s.
                           dot (queries ! b ! l ! h) (keys ! b ! s ! h)) [0..<S]) [0..<L]) [0..<H]) [0..<B];
                mask = tile_heads H
                         (case attn_mask of None \<Rightarrow> TriangularCausalMask B L | Some m \<Rightarrow> m)
            in if mask_flag self \<and> \<not> has_shape4 mask B H L S then Inl ValueError
               else
                 let scores' = (if mask_flag self then where_masked mask scores
                                else map (map (map (map Fin))) scores);
                     A = map (\<lambda>b. map (\<lambda>h. map (\<lambda>l.
                           dropout (attention_dropout self) (training self) (keep b h l)
                             (softmax_row (map (scale_score c) (scores' ! b ! h ! l))))
                           [0..<L]) [0..<H]) [0..<B];
                     V = map (\<lambda>b. map (\<lambda>l. map (\<lambda>h.
                           map_option (\<lambda>w. weighted_sum S D w (\<lambda>s d. values ! b ! s ! h ! d))
                             (A ! b ! h ! l))
                           [0..<H]) [0..<L]) [0..<B]
                 in Inr (V, if output_attention self then Some A else None)))))"

section \<open>ProbSparse attention\<close>

text \<open>
  \<^verbatim>\<open>np.ceil(np.log(L)).astype('int').item()\<close>. For \<open>L = 0\<close> the logarithm is
  \<open>-inf\<close>, which the cast to a 64-bit integer turns into the least one.
\<close>

definition ceil_ln :: "nat \<Rightarrow> int" where
  "ceil_ln L = (if L = 0 then - (2 ^ 63) else \<lceil>ln (real L)\<rceil>)"

text \<open>
  What \<^verbatim>\<open>paddle.randint(high=L_K, shape=[L_Q, sample_k])\<close> returns: an
  \<open>[L_Q, sample_k]\<close> matrix of key positions below \<open>L_K\<close>.
\<close>

definition randint_ok :: "nat list list \<Rightarrow> nat \<Rightarrow> nat \<Rightarrow> nat \<Rightarrow> bool" where
  "randint_ok index_sample L_K L_Q sample_k =
     (has_shape2 index_sample L_Q sample_k \<and> list_all (list_all (\<lambda>i. i < L_K)) index_sample)"

text \<open>\<^verbatim>\<open>index_sample.reshape([1, 1, L_Q, sample_k, 1]).tile([B, H, 1, 1, E])\<close>.\<close>

definition index_sample_tiled :: "nat list list \<Rightarrow> nat \<Rightarrow> nat \<Rightarrow> nat \<Rightarrow> nat list list list list list" where
  "index_sample_tiled index_sample B H E =
     replicate B (replicate H (map (map (replicate E)) index_sample))"

text \<open>\<^verbatim>\<open>K.unsqueeze(-3).expand([B, H, L_Q, L_K, E])\<close>.\<close>

definition K_expand_of :: "tensor4 \<Rightarrow> nat \<Rightarrow> real list list list list list" where
  "K_expand_of K L_Q = map (map (replicate L_Q)) K"

text \<open>
  \<^verbatim>\<open>K_expand.index_sample(index_sample)\<close>. \<^verbatim>\<open>paddle.index_sample(x, index)\<close> takes a
  two-axis \<open>x\<close> of shape \<open>[N, M]\<close> and a two-axis \<open>index\<close> of shape \<open>[N, K]\<close> and
  returns \<open>out[i][j] = x[i][index[i][j]]\<close>. Here \<open>x\<close> has the five axes
  \<open>[B, H, L_Q, L_K, E]\<close> and \<open>index\<close> the five axes \<open>[B, H, L_Q, sample_k, E]\<close>:
  the backend refuses the call. (The line above it in the source, a comment, is the
  indexing that the call stands for in the original; it is not what runs.)
\<close>

definition index_sample_5d ::
  "real list list list list list \<Rightarrow> nat list list list list list \<Rightarrow>
   py_error + real list list list list list" where
  "index_sample_5d x index = Inl ValueError"



text \<open>
  The positions that \<^verbatim>\<open>M.topk(n_top, sorted=False)[1]\<close> returns for one row: those
  of the \<open>n_top\<close> largest entries. The backend leaves their order and the choice among
  equal entries open; here they come by falling value, the lower position first among
  equals.
\<close>

definition topk_indices :: "nat \<Rightarrow> real list \<Rightarrow> nat list" where
  "topk_indices k xs = take k (sort_key (\<lambda>i. - xs ! i) [0..<length xs])"


text \<open>
  \<^verbatim>\<open>ProbAttention._prob_QK(self, Q, K, sample_k, n_top)\<close> with \<open>Q\<close> \<open>[B, H, L_Q, E]\<close>,
  \<open>K\<close> \<open>[B, H, L_K, E]\<close> and the draw \<open>index_sample\<close> of \<^verbatim>\<open>paddle.randint\<close>, which
  is refused when there is no key to draw from or the count is negative. The call of
  \<^verbatim>\<open>index_sample\<close> ends the function with its error. Were it to return, the next
  line would end it as well: \<^verbatim>\<open>K_sample.transpose(-2, -1)\<close> passes two integers where
  \<^verbatim>\<open>Tensor.transpose\<close> takes a permutation of the axes (as \<^verbatim>\<open>forward\<close> passes
  one), and so does \<^verbatim>\<open>K.transpose(-2, -1)\<close> further down.
\<close>

definition prob_QK ::
  "tensor4 \<Rightarrow> tensor4 \<Rightarrow> int \<Rightarrow> int \<Rightarrow> nat list list \<Rightarrow> py_error + (tensor4 \<times> nat list list list)" where
  "prob_QK Q K sample_k n_top index_sample =
     (case shape4 K of (B, H, L_K, E) \<Rightarrow>
     (case shape4 Q of (B', H', L_Q, E') \<Rightarrow>
        if L_K = 0 \<or> sample_k < 0 then Inl ValueError
        else
          let K_expand = K_expand_of K L_Q;
              idx = index_sample_tiled index_sample B H E
          in (case index_sample_5d K_expand idx of
                Inl err \<Rightarrow> Inl err
              | Inr K_sample \<Rightarrow> Inl ValueError)))"

text \<open>
  The indexed assignment \<^verbatim>\<open>x[b, h, index[b][h], :] = rows\<close> for one batch and head:
  row \<open>j\<close> of \<open>rows\<close> replaces row \<open>index[b][h][j]\<close> of \<open>x\<close>.
\<close>

fun scatter_rows :: "'a list \<Rightarrow> nat list \<Rightarrow> 'a list \<Rightarrow> 'a list" where
  "scatter_rows x (i # is) (u # us) = scatter_rows (x[i := u]) is us"
| "scatter_rows x is us = x"

definition index_below :: "nat \<Rightarrow> nat list list list \<Rightarrow> bool" where
  "index_below n index = list_all (list_all (list_all (\<lambda>i. i < n))) index"

text \<open>
  \<^verbatim>\<open>ProbAttention._update_context(self, context_in, V, scores, index, L_Q, attn_mask)\<close>
  with \<open>context_in\<close> \<open>[B, H, L_Q, D]\<close>, \<open>V\<close> \<open>[B, H, L_V, D]\<close>, \<open>scores\<close>
  \<open>[B, H, n_top, L_K]\<close> and \<open>index\<close> \<open>[B, H, n_top]\<close>. The argument \<open>attn_mask\<close>
  is assigned before it is read. \<open>IndexError\<close>: a position of \<open>index\<close> outside the axis
  it selects from; \<open>ValueError\<close>: shapes that \<open>matmul\<close> or the assignment refuse.
  The rows of the results are \<open>None\<close> where they are NaN.
\<close>

definition update_context ::
  "attention \<Rightarrow> tensor4 \<Rightarrow> tensor4 \<Rightarrow> tensor4 \<Rightarrow> nat list list list \<Rightarrow> nat \<Rightarrow>
   bool list list list list option \<Rightarrow>
   py_error + (real list option list list list \<times> real list option list list list option)" where
  "update_context self context_in V scores index L_Q attn_mask =
     (case shape4 V of (B, H, L_V, D) \<Rightarrow>
     (case shape4 scores of (B', H', n_top, S) \<Rightarrow>
        if mask_flag self \<and> \<not> index_below L_Q index then Inl IndexError
        else
          let attn_mask' = (if mask_flag self then Some (ProbMask B H L_Q index S) else attn_mask);
              scores' = (if mask_flag self then where_masked (the attn_mask') scores
                         else map (map (map (map Fin))) scores);
              attn = map (map (map softmax_row)) scores'
          in if \<not> (has_shape4 scores B H n_top L_V \<and> has_shape4 V B H L_V D) then Inl ValueError
             else if \<not> index_below (dim1 (concat context_in)) index then Inl IndexError
             else if \<not> (has_shape3 index B H n_top \<and> length context_in = B
                         \<and> list_all (\<lambda>c. length c = H) context_in
                         \<and> list_all (list_all (list_all (\<lambda>r. length r = D))) context_in)
             then Inl ValueError
             else
               let upd = map (\<lambda>b. map (\<lambda>h. map (\<lambda>a.
                           map_option (\<lambda>w. weighted_sum L_V D w (\<lambda>s d. V ! b ! h ! s ! d)) a)
                           (attn ! b ! h)) [0..<H]) [0..<B];
                   context_out = map (\<lambda>b. map (\<lambda>h.
                           scatter_rows (map Some (context_in ! b ! h)) (index ! b ! h) (upd ! b ! h))
                           [0..<H]) [0..<B]
               in if output_attention self then
                    (if \<not> index_below L_V index then Inl IndexError
                     else
                       let attns = replicate B (replicate H (replicate L_V
                                     (Some (replicate L_V (1 / real L_V)))));
                           attns' = map (\<lambda>b. map (\<lambda>h.
                                     scatter_rows (attns ! b ! h) (index ! b ! h) (attn ! b ! h))
                                     [0..<H]) [0..<B]
                       in Inr (context_out, Some attns'))
                  else Inr (context_out, None)))"

text \<open>
  Modelled from the spec: \<^verbatim>\<open>swap_shape\<close> of \<^verbatim>\<open>utils/tools.py\<close> is not among the
  sources; by the specification \<^verbatim>\<open>x.transpose(swap_shape(x, 2, 1))\<close> exchanges the
  sequence axis and the head axis of a four-axis tensor.
\<close>

definition swap12 :: "'a list list list list \<Rightarrow> 'a list list list list" where
  "swap12 x =
     (case shape4 x of (B, L, H, E) \<Rightarrow>
        map (\<lambda>xb. map (\<lambda>h. map (\<lambda>l. xb ! l ! h) [0..<L]) [0..<H]) x)"

text \<open>
  The context that \<^verbatim>\<open>_update_context\<close> returns has rows in place of its last axis,
  so the same exchange is written on the three outer axes.
\<close>

definition swap12_rows :: "nat \<Rightarrow> nat \<Rightarrow> 'a list list list \<Rightarrow> 'a list list list" where
  "swap12_rows H L x = map (\<lambda>xb. map (\<lambda>l. map (\<lambda>h. xb ! h ! l) [0..<H]) [0..<L]) x"

text \<open>
  The two sizes of \<^verbatim>\<open>ProbAttention.forward\<close>:
  \<^verbatim>\<open>U_part = factor * ceil(log(L_K))\<close> and \<^verbatim>\<open>u = factor * ceil(log(L_Q))\<close>, each
  replaced by the length when it is not below it.
\<close>

definition U_part_of :: "attention \<Rightarrow> nat \<Rightarrow> int" where
  "U_part_of self L_K =
     (let U_part = factor self * ceil_ln L_K in if U_part < int L_K then U_part else int L_K)"

definition u_of :: "attention \<Rightarrow> nat \<Rightarrow> int" where
  "u_of self L_Q =
     (let u = factor self * ceil_ln L_Q in if u < int L_Q then u else int L_Q)"

text \<open>
  The lines of \<^verbatim>\<open>ProbAttention.forward\<close> after the call of \<^verbatim>\<open>_prob_QK\<close>: the
  scale, the initial context, the context update and the exchange of the axes back, on
  the head-first values \<open>values'\<close> and on the scores and the Selection Index that
  \<^verbatim>\<open>_prob_QK\<close> is to hand over; \<open>D\<close> is the last axis of the queries.
\<close>

definition forward_context ::
  "attention \<Rightarrow> nat \<Rightarrow> nat \<Rightarrow> nat \<Rightarrow> tensor4 \<Rightarrow> tensor4 \<Rightarrow> nat list list list \<Rightarrow>
   bool list list list list option \<Rightarrow>
   py_error + (real list option list list list \<times> real list option list list list option)" where
  "forward_context self D H L_Q values' scores_top index attn_mask =
     (case the_scale self D of
        Inl err \<Rightarrow> Inl err
      | Inr c \<Rightarrow>
         let scores_top' = map (map (map (map (\<lambda>x. x * c)))) scores_top
         in (case get_initial_context self values' L_Q of
               Inl err \<Rightarrow> Inl err
             | Inr context \<Rightarrow>
                (case update_context self context values' scores_top' index L_Q attn_mask of
                   Inl err \<Rightarrow> Inl err
                 | Inr (context', attn) \<Rightarrow> Inr (swap12_rows H L_Q context', attn))))"

text \<open>
  \<^verbatim>\<open>ProbAttention.forward(queries, keys, values, attn_mask)\<close> with \<open>queries\<close>
  \<open>[B, L_Q, H, D]\<close>, \<open>keys\<close> \<open>[B, L_K, H, D]\<close>, \<open>values\<close> \<open>[B, L_K, H, D]\<close> and the
  draw \<open>index_sample\<close> of \<^verbatim>\<open>_prob_QK\<close>. The context comes back as \<open>[B, L_Q, H]\<close>
  rows.
\<close>

definition ProbAttention_forward ::
  "attention \<Rightarrow> tensor4 \<Rightarrow> tensor4 \<Rightarrow> tensor4 \<Rightarrow> bool list list list list option \<Rightarrow>
   nat list list \<Rightarrow>
   py_error + (real list option list list list \<times> real list option list list list option)" where
  "ProbAttention_forward self queries keys values attn_mask index_sample =
     (case shape4 queries of (B, L_Q, H, D) \<Rightarrow>
     (case shape4 keys of (B', L_K, H', D') \<Rightarrow>
        let queries' = swap12 queries;
            keys' = swap12 keys;
            values' = swap12 values;
            U_part = U_part_of self L_K;
            u = u_of self L_Q
        in (case prob_QK queries' keys' U_part u index_sample of
              Inl err \<Rightarrow> Inl err
            | Inr (scores_top, index) \<Rightarrow>
               forward_context self D H L_Q values' scores_top index attn_mask)))"

text \<open>
  The scores as \<^verbatim>\<open>_update_context\<close> hands them to the softmax: masked by the
  \<open>ProbMask\<close> under the mask flag, unchanged without it.
\<close>

definition masked_scores :: "attention \<Rightarrow> nat \<Rightarrow> nat \<Rightarrow> nat \<Rightarrow> nat \<Rightarrow> nat list list list \<Rightarrow> tensor4 \<Rightarrow> score list list list list" where
  "masked_scores self B H L_Q S index scores =
     (if mask_flag self then where_masked (ProbMask B H L_Q index S) scores
      else map (map (map (map Fin))) scores)"

text \<open>The scale that \<^verbatim>\<open>self.scale or 1./sqrt(E)\<close> yields for \<open>E > 0\<close>.\<close>

definition scale_value :: "attention \<Rightarrow> nat \<Rightarrow> real" where
  "scale_value self E =
     (case scale self of Some c \<Rightarrow> if c \<noteq> 0 then c else 1 / sqrt (real E)
      | None \<Rightarrow> 1 / sqrt (real E))"

text \<open>
  One row of the scores of \<^verbatim>\<open>FullAttention.forward\<close> after the causal mask (when
  no mask is passed in), and the weights that it names \<open>A\<close>: the dropout of the softmax
  of the scaled rows.
\<close>

definition dense_row :: "attention \<Rightarrow> tensor4 \<Rightarrow> tensor4 \<Rightarrow> nat \<Rightarrow> nat \<Rightarrow> nat \<Rightarrow> nat \<Rightarrow> score list" where
  "dense_row self queries keys S b h l =
     map (\<lambda>s. if mask_flag self \<and> l < s then NegInf
               else Fin (dot (queries ! b ! l ! h) (keys ! b ! s ! h))) [0..<S]"

definition dense_weights ::
  "attention \<Rightarrow> tensor4 \<Rightarrow> tensor4 \<Rightarrow> (nat \<Rightarrow> nat \<Rightarrow> nat \<Rightarrow> nat \<Rightarrow> bool) \<Rightarrow>
   nat \<Rightarrow> nat \<Rightarrow> nat \<Rightarrow> nat \<Rightarrow> real \<Rightarrow> real list option list list list" where
  "dense_weights self queries keys keep B L H S c =
     map (\<lambda>b. map (\<lambda>h. map (\<lambda>l.
        dropout (attention_dropout self) (training self) (keep b h l)
          (softmax_row (map (scale_score c) (dense_row self queries keys S b h l))))
        [0..<L]) [0..<H]) [0..<B]"


section \<open>Shapes\<close>

lemma has_shape3_nth:
  "has_shape3 x a b c \<Longrightarrow> i < a \<Longrightarrow> has_shape2 (x ! i) b c"
  by (simp add: has_shape3_def list_all_length)

lemma has_shape4_nth:
  "has_shape4 x a b c d \<Longrightarrow> i < a \<Longrightarrow> has_shape3 (x ! i) b c d"
  by (simp add: has_shape4_def list_all_length)

lemma has_shape3_length: "has_shape3 x a b c \<Longrightarrow> length x = a"
  by (simp add: has_shape3_def)

lemma has_shape4_length: "has_shape4 x a b c d \<Longrightarrow> length x = a"
  by (simp add: has_shape4_def)

lemma dim1_shape: "length x = a \<Longrightarrow> 0 < a \<Longrightarrow> list_all (\<lambda>r. length r = b) x \<Longrightarrow> dim1 x = b"
  by (cases x) (simp_all add: dim1_def)

lemma concat_rect:
  "list_all (\<lambda>r. length r = b) x \<Longrightarrow> length (concat x) = length x * b"
  by (induction x) simp_all

lemma concat_all:
  "list_all (list_all P) x \<Longrightarrow> list_all P (concat x)"
  by (induction x) simp_all

lemma shape4_has_shape4:
  assumes "has_shape4 x a b c d" and "0 < a" and "0 < b" and "0 < c"
  shows "shape4 x = (a, b, c, d)"
proof -
  have la: "length x = a" using assms(1) by (simp add: has_shape4_def)
  have r1: "list_all (\<lambda>y. length y = b) x"
    using assms(1) by (simp add: has_shape4_def has_shape3_def list_all_iff)
  have r2: "list_all (list_all (\<lambda>z. length z = c)) x"
    using assms(1) by (simp add: has_shape4_def has_shape3_def has_shape2_def list_all_iff)
  have r3: "list_all (list_all (list_all (\<lambda>w. length w = d))) x"
    using assms(1) by (simp add: has_shape4_def has_shape3_def has_shape2_def list_all_iff)
  have d1: "dim1 x = b" using la assms(2) r1 by (rule dim1_shape)
  have lc: "length (concat x) = a * b" using concat_rect[OF r1] la by simp
  have d2: "dim1 (concat x) = c"
    using lc assms(2,3) concat_all[OF r2] by (intro dim1_shape[where a="a * b"]) simp_all
  have lcc: "length (concat (concat x)) = a * b * c"
    using concat_rect[OF concat_all[OF r2]] lc by simp
  have d3: "dim1 (concat (concat x)) = d"
    using lcc assms(2,3,4) concat_all[OF concat_all[OF r3]]
    by (intro dim1_shape[where a="a * b * c"]) simp_all
  show ?thesis by (simp add: shape4_def la d1 d2 d3)
qed

section \<open>Mean and running sum over the key axis\<close>

lemma length_vadd: "length a = D \<Longrightarrow> length b = D \<Longrightarrow> length (vadd a b) = D"
  by (simp add: vadd_def)

lemma nth_vadd: "d < length a \<Longrightarrow> d < length b \<Longrightarrow> vadd a b ! d = a ! d + b ! d"
  by (simp add: vadd_def)

lemma length_foldl_vadd:
  "length acc = D \<Longrightarrow> list_all (\<lambda>r. length r = D) rows \<Longrightarrow> length (foldl vadd acc rows) = D"
  by (induction rows arbitrary: acc) (simp_all add: length_vadd)

lemma nth_foldl_vadd:
  "length acc = D \<Longrightarrow> list_all (\<lambda>r. length r = D) rows \<Longrightarrow> d < D \<Longrightarrow>
   foldl vadd acc rows ! d = acc ! d + (\<Sum>k<length rows. rows ! k ! d)"
proof (induction rows arbitrary: acc)
  case Nil
  then show ?case by simp
next
  case (Cons r rows)
  have "foldl vadd (vadd acc r) rows ! d = vadd acc r ! d + (\<Sum>k<length rows. rows ! k ! d)"
    using Cons.prems by (intro Cons.IH) (simp_all add: length_vadd)
  moreover have "(\<Sum>k<Suc (length rows). (r # rows) ! k ! d) = r ! d + (\<Sum>k<length rows. rows ! k ! d)"
    by (subst sum.lessThan_Suc_shift) simp
  ultimately show ?case using Cons.prems by (simp add: nth_vadd)
qed

lemma mean_axis_nth:
  assumes "has_shape2 rows L D" and "d < D"
  shows "mean_axis D rows ! d = (\<Sum>k<L. rows ! k ! d) / real L"
proof -
  have l: "length rows = L" and r: "list_all (\<lambda>r. length r = D) rows"
    using assms(1) by (simp_all add: has_shape2_def)
  have "length (foldl vadd (replicate D 0) rows) = D"
    using r by (intro length_foldl_vadd) simp_all
  then show ?thesis
    using nth_foldl_vadd[of "replicate D 0" D rows d] r assms(2) l
    by (simp add: mean_axis_def)
qed

lemma length_mean_axis:
  "has_shape2 rows L D \<Longrightarrow> length (mean_axis D rows) = D"
  by (simp add: mean_axis_def has_shape2_def length_foldl_vadd)

lemma length_cumsum_from: "length (cumsum_from acc rows) = length rows"
  by (induction rows arbitrary: acc) simp_all

lemma cumsum_from_nth:
  "length acc = D \<Longrightarrow> list_all (\<lambda>r. length r = D) rows \<Longrightarrow> i < length rows \<Longrightarrow>
   length (cumsum_from acc rows ! i) = D \<and>
   (\<forall>d<D. cumsum_from acc rows ! i ! d = acc ! d + (\<Sum>k\<le>i. rows ! k ! d))"
proof (induction rows arbitrary: acc i)
  case Nil
  then show ?case by simp
next
  case (Cons r rows)
  show ?case
  proof (cases i)
    case 0
    then show ?thesis using Cons.prems by (simp add: length_vadd nth_vadd)
  next
    case (Suc j)
    have ih: "length (cumsum_from (vadd acc r) rows ! j) = D \<and>
      (\<forall>d<D. cumsum_from (vadd acc r) rows ! j ! d = vadd acc r ! d + (\<Sum>k\<le>j. rows ! k ! d))"
      using Cons.prems Suc by (intro Cons.IH) (simp_all add: length_vadd)
    have sh: "\<And>d. (\<Sum>k\<le>Suc j. (r # rows) ! k ! d) = r ! d + (\<Sum>k\<le>j. rows ! k ! d)"
      by (subst sum.atMost_Suc_shift) simp
    show ?thesis
    proof (intro conjI allI impI)
      show "length (cumsum_from acc (r # rows) ! i) = D" using ih Suc by simp
    next
      fix d assume d: "d < D"
      have "cumsum_from acc (r # rows) ! i ! d = vadd acc r ! d + (\<Sum>k\<le>j. rows ! k ! d)"
        using ih Suc d by simp
      also have "vadd acc r ! d = acc ! d + r ! d" using Cons.prems d by (simp add: nth_vadd)
      finally show "cumsum_from acc (r # rows) ! i ! d = acc ! d + (\<Sum>k\<le>i. (r # rows) ! k ! d)"
        unfolding Suc sh by simp
    qed
  qed
qed

lemma cumsum_axis_nth:
  assumes "has_shape2 rows L D" and "i < L" and "d < D"
  shows "cumsum_axis rows ! i ! d = (\<Sum>k\<le>i. rows ! k ! d)"
proof (cases rows)
  case Nil
  then show ?thesis using assms by (simp add: has_shape2_def)
next
  case (Cons r rs)
  have r: "length r = D" and rs: "list_all (\<lambda>r. length r = D) rs" and l: "L = Suc (length rs)"
    using assms(1) Cons by (auto simp add: has_shape2_def)
  show ?thesis
  proof (cases i)
    case 0
    then show ?thesis using Cons by (simp add: cumsum_axis_def)
  next
    case (Suc j)
    then have j: "j < length rs" using assms(2) l by simp
    have "cumsum_from r rs ! j ! d = r ! d + (\<Sum>k\<le>j. rs ! k ! d)"
      using cumsum_from_nth[OF r rs j] assms(3) by simp
    moreover have "(\<Sum>k\<le>Suc j. (r # rs) ! k ! d) = r ! d + (\<Sum>k\<le>j. rs ! k ! d)"
      by (subst sum.atMost_Suc_shift) simp
    ultimately have "cumsum_from r rs ! j ! d = (\<Sum>k\<le>Suc j. (r # rs) ! k ! d)" by simp
    then show ?thesis unfolding Cons Suc by (simp add: cumsum_axis_def)
  qed
qed

lemma has_shape2_cumsum_axis:
  assumes "has_shape2 rows L D"
  shows "has_shape2 (cumsum_axis rows) L D"
proof (cases rows)
  case Nil
  then show ?thesis using assms by (simp add: has_shape2_def cumsum_axis_def)
next
  case (Cons r rs)
  have r: "length r = D" and rs: "list_all (\<lambda>r. length r = D) rs" and l: "L = Suc (length rs)"
    using assms(1) Cons by (auto simp add: has_shape2_def)
  have "\<forall>j<length rs. length (cumsum_from r rs ! j) = D"
    using cumsum_from_nth[OF r rs] by simp
  then show ?thesis using Cons r l
    by (auto simp add: has_shape2_def cumsum_axis_def list_all_length length_cumsum_from nth_Cons split: nat.splits)
qed

section \<open>Scatter, masks and the context update\<close>

lemma length_scatter_rows: "length (scatter_rows x is us) = length x"
  by (induction x "is" us rule: scatter_rows.induct) simp_all

lemma scatter_rows_notin: "l \<notin> set is \<Longrightarrow> scatter_rows x is us ! l = x ! l"
  by (induction x "is" us rule: scatter_rows.induct) simp_all

lemma scatter_rows_in:
  "distinct is \<Longrightarrow> length us = length is \<Longrightarrow> j < length is \<Longrightarrow> is ! j < length x \<Longrightarrow>
   scatter_rows x is us ! (is ! j) = us ! j"
proof (induction x "is" us arbitrary: j rule: scatter_rows.induct)
  case (1 x i "is" u us)
  show ?case
  proof (cases j)
    case 0
    then show ?thesis using 1(2,5) by (simp add: scatter_rows_notin)
  next
    case (Suc k)
    then show ?thesis using 1 by (simp add: length_scatter_rows)
  qed
qed simp_all

lemma index_below_nth:
  "index_below n index \<Longrightarrow> b < length index \<Longrightarrow> h < length (index ! b) \<Longrightarrow>
   i \<in> set (index ! b ! h) \<Longrightarrow> i < n"
  by (simp add: index_below_def list_all_length) (metis in_set_conv_nth)

lemma has_shape3_len1: "has_shape3 x a b c \<Longrightarrow> i < a \<Longrightarrow> length (x ! i) = b"
  by (simp add: has_shape3_def has_shape2_def list_all_length)

lemma has_shape3_len2: "has_shape3 x a b c \<Longrightarrow> i < a \<Longrightarrow> j < b \<Longrightarrow> length (x ! i ! j) = c"
  by (simp add: has_shape3_def has_shape2_def list_all_length)

lemma has_shape4_len1: "has_shape4 x a b c d \<Longrightarrow> i < a \<Longrightarrow> length (x ! i) = b"
  by (simp add: has_shape4_def has_shape3_def list_all_length)

lemma has_shape4_len2: "has_shape4 x a b c d \<Longrightarrow> i < a \<Longrightarrow> j < b \<Longrightarrow> length (x ! i ! j) = c"
  by (simp add: has_shape4_def has_shape3_def has_shape2_def list_all_length)


lemma has_shape4_rows:
  "has_shape4 x a b c d \<Longrightarrow> list_all (\<lambda>y. length y = b) x \<and>
     list_all (list_all (\<lambda>z. length z = c)) x \<and>
     list_all (list_all (list_all (\<lambda>w. length w = d))) x"
  by (simp add: has_shape4_def has_shape3_def has_shape2_def list_all_iff)

lemma dim1_concat_shape:
  assumes "has_shape4 x a b c d" and "0 < a" and "0 < b"
  shows "dim1 (concat x) = c"
proof -
  have r1: "list_all (\<lambda>y. length y = b) x" and r2: "list_all (list_all (\<lambda>z. length z = c)) x"
    using has_shape4_rows[OF assms(1)] by simp_all
  have "length (concat x) = a * b"
    using concat_rect[OF r1] has_shape4_length[OF assms(1)] by simp
  then show ?thesis using assms(2,3) concat_all[OF r2]
    by (intro dim1_shape[where a="a * b"]) simp_all
qed

lemma update_context_value:
  assumes V: "has_shape4 V B H L_V D" and sc: "has_shape4 scores B H n_top L_V"
    and ctx: "has_shape4 context_in B H L_Q D" and ix: "has_shape3 index B H n_top"
    and below: "index_below L_Q index"
    and pos: "0 < B" "0 < H" "0 < L_V" "0 < n_top"
    and oa: "output_attention self \<longrightarrow> index_below L_V index"
  shows "\<exists>attn. update_context self context_in V scores index L_Q attn_mask =
     Inr (map (\<lambda>b. map (\<lambda>h.
            scatter_rows (map Some (context_in ! b ! h)) (index ! b ! h)
              (map (\<lambda>a. map_option (\<lambda>w. weighted_sum L_V D w (\<lambda>s d. V ! b ! h ! s ! d)) a)
                 (map (map (map softmax_row)) (masked_scores self B H L_Q L_V index scores) ! b ! h)))
            [0..<H]) [0..<B], attn)"
proof -
  have sV: "shape4 V = (B, H, L_V, D)" using V pos(1,2,3) by (rule shape4_has_shape4)
  have sS: "shape4 scores = (B, H, n_top, L_V)" using sc pos(1,2,4) by (rule shape4_has_shape4)
  have dc: "dim1 (concat context_in) = L_Q" using ctx pos(1,2) by (rule dim1_concat_shape)
  have rows: "length context_in = B" "list_all (\<lambda>c. length c = H) context_in"
     "list_all (list_all (list_all (\<lambda>r. length r = D))) context_in"
    using has_shape4_rows[OF ctx] has_shape4_length[OF ctx] by simp_all
  show ?thesis
    unfolding update_context_def sV sS
    using oa by (simp add: Let_def below dc rows V sc ix masked_scores_def)
qed



lemma length_masked_scores:
  assumes sc: "has_shape4 scores B H n_top S" and ix: "has_shape3 index B H n_top"
    and b: "b < B" and h: "h < H"
  shows "length (masked_scores self B H L_Q S index scores ! b ! h) = n_top"
proof -
  have ls: "length scores = B" "length (scores ! b) = H" "length (scores ! b ! h) = n_top"
    using has_shape4_len1[OF sc b] has_shape4_len2[OF sc b h] has_shape4_length[OF sc] by simp_all
  have li: "length index = B" "length (index ! b) = H" "length (index ! b ! h) = n_top"
    using has_shape3_len1[OF ix b] has_shape3_len2[OF ix b h] has_shape3_length[OF ix] by simp_all
  show ?thesis using b h ls li
    by (simp add: masked_scores_def where_masked_def ProbMask_def)
qed

lemmas shape_defs = shape4_def dim1_def has_shape4_def has_shape3_def has_shape2_def index_below_def

section \<open>Sampled scores and the importance measure\<close>

lemma randint_ok_nth:
  "randint_ok index_sample L_K L_Q k \<Longrightarrow> q < L_Q \<Longrightarrow> s < k \<Longrightarrow>
   length index_sample = L_Q \<and> length (index_sample ! q) = k \<and> index_sample ! q ! s < L_K"
  by (simp add: randint_ok_def has_shape2_def list_all_length)

lemma index_sample_tiled_nth:
  "b < B \<Longrightarrow> h < H \<Longrightarrow> index_sample_tiled index_sample B H E ! b ! h = map (map (replicate E)) index_sample"
  by (simp add: index_sample_tiled_def)



section \<open>Top-k selection, sizes and the axis exchange\<close>




lemma set_topk_indices_all: "set (topk_indices (length xs) xs) = {..<length xs}"
  by (auto simp add: topk_indices_def)


lemma ceil_ln_2: "ceil_ln 2 = 1"
proof -
  have "0 < ln (2::real)" by (intro ln_gt_zero) simp
  moreover have "ln (2::real) \<le> 1" using ln_le_minus_one[of "2::real"] by simp
  ultimately have "\<lceil>ln (2::real)\<rceil> = 1" by (simp add: ceiling_eq_iff)
  then show ?thesis by (simp add: ceil_ln_def)
qed









section \<open>Evaluation on small inputs; arguments that are not read\<close>

lemma ceil_ln_Suc_Suc: "ceil_ln (Suc (Suc 0)) = 1"
  using ceil_ln_2 by (simp add: numeral_2_eq_2)

lemmas context_defs = forward_context_def update_context_def get_initial_context_def
  the_scale_def shape_defs swap12_def swap12_rows_def init_attention_def Let_def
  dot_def softmax_row_def weighted_sum_def ProbMask_def triu1_def where_masked_def
  cumsum_axis_def vadd_def mean_axis_def upt_rec

lemma context_example_masked:
  "forward_context (init_attention True 5 None (1/10) False) 1 1 2
     (swap12 [[[[1]], [[3]]]]) [[[[0, 0], [0, 0]]]] [[[0, 1]]] None
   = Inr ([[[Some [1]], [Some [2]]]], None)"
  by (simp add: context_defs)

lemma context_example_unmasked:
  "forward_context (init_attention False 5 None (1/10) True) 1 1 2
     (swap12 [[[[1]], [[3]]]]) [[[[0, 0], [0, 0]]]] [[[0, 1]]] None
   = Inr ([[[Some [2]], [Some [2]]]], Some [[[Some [1/2, 1/2], Some [1/2, 1/2]]]])"
  by (simp add: context_defs numeral_2_eq_2)



lemmas dense_defs = FullAttention_forward_def the_scale_def shape_defs init_attention_def Let_def
  dot_def softmax_row_def weighted_sum_def triu1_def where_masked_def TriangularCausalMask_def
  tile_heads_def dropout_def upt_rec

lemma dense_example_masked: "FullAttention_forward (init_attention True 5 None 0 True)
     [[[[0]], [[0]]]] [[[[0]], [[0]]]] [[[[1]], [[3]]]] None (\<lambda>b h l s. True)
   = Inr ([[[Some [1]], [Some [2]]]], Some [[[Some [1, 0], Some [1/2,1/2]]]])"
  by (simp add: dense_defs)

lemma dense_example_dropout: "FullAttention_forward (init_attention True 5 None (1/2) True)
     [[[[0]], [[0]]]] [[[[0]], [[0]]]] [[[[1]], [[3]]]] None (\<lambda>b h l s. s = 0)
   = Inr ([[[Some [2]], [Some [1]]]], Some [[[Some [2, 0], Some [1,0]]]])"
  by (simp add: dense_defs)

lemma dense_example_negative_scale: "FullAttention_forward (init_attention True 5 (Some (-1)) 0 True)
     [[[[0]], [[0]]]] [[[[0]], [[0]]]] [[[[1]], [[3]]]] None (\<lambda>b h l s. True)
   = Inr ([[[None], [Some [2]]]], Some [[[None, Some [1/2,1/2]]]])"
  by (simp add: dense_defs)

lemma the_scale_Inr: "0 < E \<Longrightarrow> the_scale self E = Inr (scale_value self E)"
  by (simp add: the_scale_def scale_value_def split: option.splits)

lemma scale_value_default: "scale self = None \<Longrightarrow> 0 < E \<Longrightarrow> 0 < scale_value self E"
  by (simp add: scale_value_def)

lemma update_context_attn_mask:
  "update_context self context_in V scores index L_Q m1 = update_context self context_in V scores index L_Q m2"
proof -
  obtain B H L_V D where sV: "shape4 V = (B, H, L_V, D)" by (cases "shape4 V") auto
  obtain B' H' n_top S where sS: "shape4 scores = (B', H', n_top, S)" by (cases "shape4 scores") auto
  show ?thesis by (cases "mask_flag self") (simp_all add: update_context_def sV sS Let_def)
qed

lemma the_scale_dropout: "the_scale (self\<lparr>attention_dropout := p\<rparr>) E = the_scale self E"
  by (simp add: the_scale_def)

lemma get_initial_context_dropout:
  "get_initial_context (self\<lparr>attention_dropout := p\<rparr>) V L_Q = get_initial_context self V L_Q"
  by (simp add: get_initial_context_def)

lemma update_context_dropout:
  "update_context (self\<lparr>attention_dropout := p\<rparr>) c V s i L_Q m = update_context self c V s i L_Q m"
proof -
  obtain B H L_V D where sV: "shape4 V = (B, H, L_V, D)" by (cases "shape4 V") auto
  obtain B' H' n_top S where sS: "shape4 s = (B', H', n_top, S)" by (cases "shape4 s") auto
  show ?thesis by (simp add: update_context_def sV sS Let_def)
qed

lemma sizes_dropout:
  "U_part_of (self\<lparr>attention_dropout := p\<rparr>) L = U_part_of self L"
  "u_of (self\<lparr>attention_dropout := p\<rparr>) L = u_of self L"
  by (simp_all add: U_part_of_def u_of_def)

lemma forward_context_attn_mask:
  "forward_context self D H L_Q values' scores_top index m1
     = forward_context self D H L_Q values' scores_top index m2"
  unfolding forward_context_def by (simp only: update_context_attn_mask[of _ _ _ _ _ _ m1 m2])

lemma forward_context_dropout:
  "forward_context (self\<lparr>attention_dropout := p\<rparr>) D H L_Q values' scores_top index attn_mask
     = forward_context self D H L_Q values' scores_top index attn_mask"
  unfolding forward_context_def the_scale_dropout get_initial_context_dropout
    update_context_dropout by (rule refl)

section \<open>Dense attention on well-shaped arguments\<close>

lemma tile_heads_causal:
  "tile_heads H (TriangularCausalMask B L) = replicate B (replicate H (triu1 L L))"
proof -
  have "concat (replicate H [x]) = replicate H x" for x :: "bool list list"
    by (induction H) simp_all
  then show ?thesis by (simp add: tile_heads_def TriangularCausalMask_def)
qed

lemma has_shape4_causal: "has_shape4 (replicate B (replicate H (triu1 L L))) B H L L"
  by (simp add: has_shape4_def has_shape3_def has_shape2_def list_all_length triu1_def)

lemma where_masked_causal_row:
  assumes "b < B" and "h < H" and "l < L"
  shows "where_masked (replicate B (replicate H (triu1 L L)))
           (map (\<lambda>b. map (\<lambda>h. map (\<lambda>l. map (f b h l) [0..<L]) [0..<L]) [0..<H]) [0..<B]) ! b ! h ! l
         = map (\<lambda>s. if l < s then NegInf else Fin (f b h l s)) [0..<L]"
  using assms by (simp add: where_masked_def triu1_def) (intro nth_equalityI, simp_all)

lemma FullAttention_forward_value:
  assumes q: "has_shape4 queries B L H E" and k: "has_shape4 keys B S H E"
    and v: "has_shape4 values B S H D"
    and pos: "0 < B" "0 < L" "0 < H" "0 < S" "0 < E"
    and ls: "mask_flag self \<longrightarrow> L = S"
  shows "FullAttention_forward self queries keys values None keep =
     Inr (map (\<lambda>b. map (\<lambda>l. map (\<lambda>h.
            map_option (\<lambda>w. weighted_sum S D w (\<lambda>s d. values ! b ! s ! h ! d))
              (dense_weights self queries keys keep B L H S (scale_value self E) ! b ! h ! l))
            [0..<H]) [0..<L]) [0..<B],
          if output_attention self
          then Some (dense_weights self queries keys keep B L H S (scale_value self E)) else None)"
proof -
  have sq: "shape4 queries = (B, L, H, E)" using q pos(1,2,3) by (rule shape4_has_shape4)
  have sv: "shape4 values = (B, S, H, D)" using v pos(1,4,3) by (rule shape4_has_shape4)
  let ?scores = "map (\<lambda>b. map (\<lambda>h. map (\<lambda>l. map (\<lambda>s.
                   dot (queries ! b ! l ! h) (keys ! b ! s ! h)) [0..<S]) [0..<L]) [0..<H]) [0..<B]"
  let ?scores' = "if mask_flag self
                  then where_masked (tile_heads H (TriangularCausalMask B L)) ?scores
                  else map (map (map (map Fin))) ?scores"
  have row: "?scores' ! b ! h ! l = dense_row self queries keys S b h l"
    if "b < B" "h < H" "l < L" for b h l
  proof (cases "mask_flag self")
    case True
    then have "L = S" using ls by simp
    then show ?thesis
      using True that where_masked_causal_row[OF that,
          of "\<lambda>b h l s. dot (queries ! b ! l ! h) (keys ! b ! s ! h)"]
      by (simp add: tile_heads_causal dense_row_def)
  next
    case False
    then show ?thesis using that by (simp add: dense_row_def)
  qed
  let ?A = "map (\<lambda>b. map (\<lambda>h. map (\<lambda>l.
              dropout (attention_dropout self) (training self) (keep b h l)
                (softmax_row (map (scale_score (scale_value self E)) (?scores' ! b ! h ! l))))
              [0..<L]) [0..<H]) [0..<B]"
  have A: "?A = dense_weights self queries keys keep B L H S (scale_value self E)"
    unfolding dense_weights_def using row by (intro map_cong refl) simp
  have msk: "mask_flag self \<Longrightarrow> has_shape4 (tile_heads H (TriangularCausalMask B L)) B H L S"
    using ls has_shape4_causal[of B H L] by (simp add: tile_heads_causal)
  have "FullAttention_forward self queries keys values None keep =
        Inr (map (\<lambda>b. map (\<lambda>l. map (\<lambda>h.
            map_option (\<lambda>w. weighted_sum S D w (\<lambda>s d. values ! b ! s ! h ! d)) (?A ! b ! h ! l))
            [0..<H]) [0..<L]) [0..<B],
          if output_attention self then Some ?A else None)"
    unfolding FullAttention_forward_def sq sv
    using q k v msk by (simp add: the_scale_Inr[OF pos(5)] Let_def)
  then show ?thesis unfolding A .
qed

lemma scaled_dense_row:
  assumes "mask_flag self \<longrightarrow> 0 < c"
  shows "map (scale_score c) (dense_row self queries keys S b h l) =
         map (\<lambda>s. if mask_flag self \<and> l < s then NegInf
                   else Fin (c * dot (queries ! b ! l ! h) (keys ! b ! s ! h))) [0..<S]"
  using assms by (simp add: dense_row_def)

lemma softmax_row_masked:
  assumes "0 < S"
  shows "\<exists>w. softmax_row (map (\<lambda>s. if m \<and> i < s then NegInf else Fin (f s)) [0..<S]) = Some w \<and>
             length w = S \<and> (\<forall>j<S. m \<and> i < j \<longrightarrow> w ! j = 0)"
proof -
  let ?row = "map (\<lambda>s. if m \<and> i < s then NegInf else Fin (f s)) [0..<S]"
  have ne: "?row \<noteq> []" using assms by simp
  have all: "list_all (\<lambda>s. is_Fin s \<or> s = NegInf) ?row" by (auto simp add: list_all_iff)
  have "?row ! 0 = Fin (f 0)" using assms by simp
  moreover have "?row ! 0 \<in> set ?row" using assms by (intro nth_mem) simp
  ultimately have ex: "list_ex is_Fin ?row" unfolding list_ex_iff by (metis is_Fin.simps(1))
  have "softmax_row ?row = Some (map (\<lambda>s. exp_score s / sum_list (map exp_score ?row)) ?row)"
    using ne all ex by (simp add: softmax_row_def)
  moreover have "map (\<lambda>s. exp_score s / sum_list (map exp_score ?row)) ?row ! j = 0"
    if "j < S" "m \<and> i < j" for j using that by simp
  ultimately show ?thesis by simp
qed

lemma dropout_keeps_zero:
  assumes "row = Some w" and "\<forall>j<length w. P j \<longrightarrow> w ! j = 0"
  shows "\<exists>w'. dropout p tr kp row = Some w' \<and> length w' = length w \<and>
              (\<forall>j<length w. P j \<longrightarrow> w' ! j = 0)"
  using assms by (simp add: dropout_def)

lemma causal_mask_entry:
  "b < B \<Longrightarrow> i < L \<Longrightarrow> j < L \<Longrightarrow> TriangularCausalMask B L ! b ! 0 ! i ! j = (i < j)"
  by (simp add: TriangularCausalMask_def triu1_def)

section \<open>ProbSparse attention with every query selected\<close>







section \<open>The selection of line 65 and the lines after \<^verbatim>\<open>_prob_QK\<close>\<close>




lemma update_example_selected:
  "update_context (init_attention True 5 None (1/10) False)
     [[[[5], [7]]]] [[[[1], [3]]]] [[[[0, 0]]]] [[[0]]] 2 None
   = Inr ([[[Some [1], Some [7]]]], None)"
  by (simp add: context_defs)









section \<open>Causal dense attention with a positive scale\<close>

lemma causal_dense_weights_zero_for_positive_scale:
  assumes q: "has_shape4 queries B L H E" and k: "has_shape4 keys B L H E"
    and v: "has_shape4 values B L H D"
    and pos: "0 < B" "0 < L" "0 < H" "0 < E"
    and m: "mask_flag self" and c: "0 < scale_value self E"
  shows "(\<forall>b<B. \<forall>i<L. \<forall>j<L. TriangularCausalMask B L ! b ! 0 ! i ! j = (i < j)) \<and>
         (\<exists>V A. FullAttention_forward self queries keys values None keep
                   = Inr (V, if output_attention self then Some A else None) \<and>
            (\<forall>b<B. \<forall>h<H. \<forall>i<L. \<exists>w.
               A ! b ! h ! i = Some w \<and> length w = L \<and> (\<forall>j<L. i < j \<longrightarrow> w ! j = 0) \<and>
               V ! b ! i ! h = Some (weighted_sum L D w (\<lambda>s d. values ! b ! s ! h ! d))))"
proof -
  let ?A = "dense_weights self queries keys keep B L H L (scale_value self E)"
  let ?V = "map (\<lambda>b. map (\<lambda>l. map (\<lambda>h.
            map_option (\<lambda>w. weighted_sum L D w (\<lambda>s d. values ! b ! s ! h ! d)) (?A ! b ! h ! l))
            [0..<H]) [0..<L]) [0..<B]"
  have eq: "FullAttention_forward self queries keys values None keep
              = Inr (?V, if output_attention self then Some ?A else None)"
    using q k v pos(1,2,3) pos(2) pos(4) by (rule FullAttention_forward_value) simp
  have rows: "\<exists>w. ?A ! b ! h ! i = Some w \<and> length w = L \<and> (\<forall>j<L. i < j \<longrightarrow> w ! j = 0) \<and>
               ?V ! b ! i ! h = Some (weighted_sum L D w (\<lambda>s d. values ! b ! s ! h ! d))"
    if "b < B" "h < H" "i < L" for b h i
  proof -
    obtain w0 where w0: "softmax_row (map (scale_score (scale_value self E))
                           (dense_row self queries keys L b h i)) = Some w0"
        "length w0 = L" "\<forall>j<L. mask_flag self \<and> i < j \<longrightarrow> w0 ! j = 0"
      using softmax_row_masked[OF pos(2), of "mask_flag self" i
          "\<lambda>s. scale_value self E * dot (queries ! b ! i ! h) (keys ! b ! s ! h)"] c
      unfolding scaled_dense_row[of self "scale_value self E", OF impI[OF c]] by blast
    obtain w where w: "dropout (attention_dropout self) (training self) (keep b h i) (Some w0) = Some w"
        "length w = length w0" "\<forall>j<length w0. i < j \<longrightarrow> w ! j = 0"
      using dropout_keeps_zero[OF refl, of w0 "\<lambda>j. i < j"] w0(2,3) m by blast
    have "?A ! b ! h ! i = Some w" using that w0(1) w(1) by (simp add: dense_weights_def)
    then show ?thesis using that w(2,3) w0(2) by simp
  qed
  show ?thesis using eq rows causal_mask_entry by blast
qed

section \<open>The claims\<close>

text \<open>
  C3. On a value tensor of shape \<open>[B, H, L_V, D]\<close> the initial context of ProbSparse
  attention is, without the mask flag, the mean of \<open>V\<close> over the key axis in every one of
  its \<open>L_Q\<close> rows, and with the mask flag (where \<open>L_Q = L_V\<close>) the sum of \<open>V\<close> over
  the key positions \<open>0..i\<close> in row \<open>i\<close>.
\<close>

theorem initial_context_mean_or_cumsum:
  assumes "has_shape4 V B H L_V D" and "0 < B" and "0 < H" and "0 < L_V"
  shows "(\<not> mask_flag self \<longrightarrow>
            (\<exists>ctx. get_initial_context self V L_Q = Inr ctx \<and> has_shape4 ctx B H L_Q D \<and>
               (\<forall>b<B. \<forall>h<H. \<forall>i<L_Q. \<forall>d<D.
                  ctx ! b ! h ! i ! d = (\<Sum>k<L_V. V ! b ! h ! k ! d) / real L_V))) \<and>
         (mask_flag self \<and> L_Q = L_V \<longrightarrow>
            (\<exists>ctx. get_initial_context self V L_Q = Inr ctx \<and> has_shape4 ctx B H L_Q D \<and>
               (\<forall>b<B. \<forall>h<H. \<forall>i<L_Q. \<forall>d<D.
                  ctx ! b ! h ! i ! d = (\<Sum>k\<le>i. V ! b ! h ! k ! d))))"
proof -
  have sh: "shape4 V = (B, H, L_V, D)" using assms by (rule shape4_has_shape4)
  have lV: "length V = B" using assms(1) by (rule has_shape4_length)
  have lb: "\<And>b. b < B \<Longrightarrow> length (V ! b) = H"
    using has_shape3_length[OF has_shape4_nth[OF assms(1)]] by blast
  have blk: "\<And>b h. b < B \<Longrightarrow> h < H \<Longrightarrow> has_shape2 (V ! b ! h) L_V D"
    using has_shape3_nth[OF has_shape4_nth[OF assms(1)]] by blast
  show ?thesis
  proof (intro conjI impI)
    assume nm: "\<not> mask_flag self"
    let ?ctx = "map (map (\<lambda>v. replicate L_Q v)) (map (map (mean_axis D)) V)"
    have 1: "get_initial_context self V L_Q = Inr ?ctx"
      using nm by (simp add: get_initial_context_def sh)
    have 2: "has_shape4 ?ctx B H L_Q D"
      using length_mean_axis[OF blk] lb lV
      by (simp add: has_shape4_def has_shape3_def has_shape2_def list_all_length)
    have 3: "\<forall>b<B. \<forall>h<H. \<forall>i<L_Q. \<forall>d<D.
                  ?ctx ! b ! h ! i ! d = (\<Sum>k<L_V. V ! b ! h ! k ! d) / real L_V"
      using mean_axis_nth[OF blk] lb lV by simp
    show "\<exists>ctx. get_initial_context self V L_Q = Inr ctx \<and> has_shape4 ctx B H L_Q D \<and>
               (\<forall>b<B. \<forall>h<H. \<forall>i<L_Q. \<forall>d<D.
                  ctx ! b ! h ! i ! d = (\<Sum>k<L_V. V ! b ! h ! k ! d) / real L_V)"
      using 1 2 3 by blast
  next
    assume m: "mask_flag self \<and> L_Q = L_V"
    let ?ctx = "map (map cumsum_axis) V"
    have 1: "get_initial_context self V L_Q = Inr ?ctx"
      using m by (simp add: get_initial_context_def sh)
    have 2: "has_shape4 ?ctx B H L_Q D"
      using blk lb lV m has_shape2_cumsum_axis
      by (simp add: has_shape4_def has_shape3_def list_all_length)
    have 3: "\<forall>b<B. \<forall>h<H. \<forall>i<L_Q. \<forall>d<D. ?ctx ! b ! h ! i ! d = (\<Sum>k\<le>i. V ! b ! h ! k ! d)"
      using cumsum_axis_nth[OF blk] lb lV m by simp
    show "\<exists>ctx. get_initial_context self V L_Q = Inr ctx \<and> has_shape4 ctx B H L_Q D \<and>
               (\<forall>b<B. \<forall>h<H. \<forall>i<L_Q. \<forall>d<D. ctx ! b ! h ! i ! d = (\<Sum>k\<le>i. V ! b ! h ! k ! d))"
      using 1 2 3 by blast
  qed
qed

theorem initial_context_mean_or_cumsum_witness:
  "has_shape4 [[[[1], [3::real]]]] 1 1 2 1 \<and>
   (\<exists>ctx. get_initial_context (init_attention False 5 None (1/10) False) [[[[1], [3]]]] 2 = Inr ctx \<and>
          ctx ! 0 ! 0 ! 0 ! 0 = 2 \<and> ctx ! 0 ! 0 ! 1 ! 0 = 2) \<and>
   (\<exists>ctx. get_initial_context (init_attention True 5 None (1/10) False) [[[[1], [3]]]] 2 = Inr ctx \<and>
          ctx ! 0 ! 0 ! 0 ! 0 = 1 \<and> ctx ! 0 ! 0 ! 1 ! 0 = 4)"
proof -
  have h: "has_shape4 [[[[1], [3::real]]]] 1 1 2 1"
    by (simp add: has_shape4_def has_shape3_def has_shape2_def)
  have s2: "(\<Sum>k<2. [[1], [3::real]] ! k ! 0) = 4"
    by (simp add: lessThan_Suc numeral_2_eq_2)
  from initial_context_mean_or_cumsum[OF h, of "init_attention False 5 None (1/10) False" 2]
  obtain c1 where c1:
    "get_initial_context (init_attention False 5 None (1/10) False) [[[[1], [3]]]] 2 = Inr c1"
    "\<forall>b<1. \<forall>h<1. \<forall>i<2. \<forall>d<1.
       c1 ! b ! h ! i ! d = (\<Sum>k<2. [[[[1], [3::real]]]] ! b ! h ! k ! d) / real 2"
    by (auto simp add: init_attention_def)
  have a: "c1 ! 0 ! 0 ! 0 ! 0 = 2 \<and> c1 ! 0 ! 0 ! 1 ! 0 = 2"
    using c1(2) s2 by simp
  from initial_context_mean_or_cumsum[OF h, of "init_attention True 5 None (1/10) False" 2]
  obtain c2 where c2:
    "get_initial_context (init_attention True 5 None (1/10) False) [[[[1], [3]]]] 2 = Inr c2"
    "\<forall>b<1. \<forall>h<1. \<forall>i<2. \<forall>d<1.
       c2 ! b ! h ! i ! d = (\<Sum>k\<le>i. [[[[1], [3::real]]]] ! b ! h ! k ! d)"
    by (auto simp add: init_attention_def)
  have b: "c2 ! 0 ! 0 ! 0 ! 0 = 1 \<and> c2 ! 0 ! 0 ! 1 ! 0 = 4"
    using c2(2) by simp
  show ?thesis using h c1(1) a c2(1) b by blast
qed

text \<open>
  C4. On well-shaped arguments the context update returns, and in its result every row
  of every batch and head whose position is not in the Selection Index is the row of the
  initial context; the row at a selected position (the selected positions of a head being
  distinct) is the exact attention result of that query: the softmax of its masked scores
  applied to \<open>V\<close>.
\<close>

theorem update_context_keeps_unselected_rows:
  assumes V: "has_shape4 V B H L_V D" and sc: "has_shape4 scores B H n_top L_V"
    and ctx: "has_shape4 context_in B H L_Q D" and ix: "has_shape3 index B H n_top"
    and below: "index_below L_Q index"
    and pos: "0 < B" "0 < H" "0 < L_V" "0 < n_top"
    and oa: "output_attention self \<longrightarrow> index_below L_V index"
  shows "\<exists>ctx attn.
           update_context self context_in V scores index L_Q attn_mask = Inr (ctx, attn) \<and>
           (\<forall>b<B. \<forall>h<H. \<forall>l<L_Q. l \<notin> set (index ! b ! h) \<longrightarrow>
              ctx ! b ! h ! l = Some (context_in ! b ! h ! l)) \<and>
           (\<forall>b<B. \<forall>h<H. distinct (index ! b ! h) \<longrightarrow> (\<forall>j<n_top.
              ctx ! b ! h ! (index ! b ! h ! j) =
                map_option (\<lambda>w. weighted_sum L_V D w (\<lambda>s d. V ! b ! h ! s ! d))
                  (softmax_row (masked_scores self B H L_Q L_V index scores ! b ! h ! j))))"
proof -
  let ?rows = "\<lambda>b h. map (\<lambda>a. map_option (\<lambda>w. weighted_sum L_V D w (\<lambda>s d. V ! b ! h ! s ! d)) a)
                 (map (map (map softmax_row)) (masked_scores self B H L_Q L_V index scores) ! b ! h)"
  let ?out = "map (\<lambda>b. map (\<lambda>h.
            scatter_rows (map Some (context_in ! b ! h)) (index ! b ! h) (?rows b h)) [0..<H]) [0..<B]"
  obtain attn where eq: "update_context self context_in V scores index L_Q attn_mask = Inr (?out, attn)"
    using update_context_value[OF V sc ctx ix below pos oa] by blast
  have frame: "?out ! b ! h ! l = Some (context_in ! b ! h ! l)"
    if "b < B" "h < H" "l < L_Q" "l \<notin> set (index ! b ! h)" for b h l
    using that has_shape4_len1[OF ctx, of b] has_shape4_len2[OF ctx, of b h]
    by (simp add: scatter_rows_notin)
  have lm: "length (masked_scores self B H L_Q L_V index scores) = B"
    using has_shape4_length[OF sc] has_shape3_length[OF ix]
    by (simp add: masked_scores_def where_masked_def ProbMask_def)
  have lmb: "length (masked_scores self B H L_Q L_V index scores ! b) = H" if "b < B" for b
    using that has_shape4_length[OF sc] has_shape3_length[OF ix]
      has_shape4_len1[OF sc that]
    by (simp add: masked_scores_def where_masked_def ProbMask_def)
  have sel: "?out ! b ! h ! (index ! b ! h ! j) =
                map_option (\<lambda>w. weighted_sum L_V D w (\<lambda>s d. V ! b ! h ! s ! d))
                  (softmax_row (masked_scores self B H L_Q L_V index scores ! b ! h ! j))"
    if "b < B" "h < H" "distinct (index ! b ! h)" "j < n_top" for b h j
  proof -
    have li: "length index = B" "length (index ! b) = H" "length (index ! b ! h) = n_top"
      using has_shape3_len1[OF ix that(1)] has_shape3_len2[OF ix that(1,2)] has_shape3_length[OF ix]
      by simp_all
    have ij: "index ! b ! h ! j < L_Q"
      using index_below_nth[OF below, of b h "index ! b ! h ! j"] li that by simp
    have lr: "length (?rows b h) = n_top"
      using length_masked_scores[OF sc ix that(1,2)] lm lmb that by simp
    have lc: "length (context_in ! b ! h) = L_Q"
      using has_shape4_len2[OF ctx that(1,2)] by simp
    have "?out ! b ! h ! (index ! b ! h ! j) = ?rows b h ! j"
      using that li ij lr lc by (simp add: scatter_rows_in)
    also have "\<dots> = map_option (\<lambda>w. weighted_sum L_V D w (\<lambda>s d. V ! b ! h ! s ! d))
                  (softmax_row (masked_scores self B H L_Q L_V index scores ! b ! h ! j))"
      using that lm lmb length_masked_scores[OF sc ix that(1,2)] by simp
    finally show ?thesis .
  qed
  show ?thesis using eq frame sel by blast
qed

theorem update_context_keeps_unselected_rows_witness:
  "has_shape4 [[[[1], [3::real]]]] 1 1 2 1 \<and> has_shape4 [[[[0, 0::real]]]] 1 1 1 2 \<and>
   has_shape4 [[[[5], [7::real]]]] 1 1 2 1 \<and> has_shape3 [[[0::nat]]] 1 1 1 \<and>
   index_below 2 [[[0]]] \<and>
   (\<exists>ctx attn.
      update_context (init_attention True 5 None (1/10) False)
        [[[[5], [7]]]] [[[[1], [3]]]] [[[[0, 0]]]] [[[0]]] 2 None = Inr (ctx, attn) \<and>
      ctx ! 0 ! 0 ! 1 = Some [7] \<and> ctx ! 0 ! 0 ! 0 = Some [1])"
proof -
  have V: "has_shape4 [[[[1], [3::real]]]] 1 1 2 1" by (simp add: shape_defs)
  have sc: "has_shape4 [[[[0, 0::real]]]] 1 1 1 2" by (simp add: shape_defs)
  have ctx: "has_shape4 [[[[5], [7::real]]]] 1 1 2 1" by (simp add: shape_defs)
  have ix: "has_shape3 [[[0::nat]]] 1 1 1" by (simp add: shape_defs)
  have below: "index_below 2 [[[0]]]" by (simp add: shape_defs)
  have oa: "output_attention (init_attention True 5 None (1/10) False) \<longrightarrow> index_below 2 [[[0]]]"
    by (simp add: shape_defs)
  obtain ctx attn where r:
    "update_context (init_attention True 5 None (1/10) False)
        [[[[5], [7]]]] [[[[1], [3]]]] [[[[0, 0]]]] [[[0]]] 2 None = Inr (ctx, attn)"
    "\<forall>b<1. \<forall>h<1. \<forall>l<2. l \<notin> set ([[[0::nat]]] ! b ! h) \<longrightarrow>
        ctx ! b ! h ! l = Some ([[[[5], [7::real]]]] ! b ! h ! l)"
    "\<forall>b<1. \<forall>h<1. distinct ([[[0::nat]]] ! b ! h) \<longrightarrow> (\<forall>j<1.
        ctx ! b ! h ! ([[[0::nat]]] ! b ! h ! j) =
          map_option (\<lambda>w. weighted_sum 2 1 w (\<lambda>s d. [[[[1], [3::real]]]] ! b ! h ! s ! d))
            (softmax_row (masked_scores (init_attention True 5 None (1/10) False) 1 1 2 2 [[[0]]]
               [[[[0, 0]]]] ! b ! h ! j)))"
    using update_context_keeps_unselected_rows[OF V sc ctx ix below _ _ _ _ oa, of None] by auto
  have a: "ctx ! 0 ! 0 ! 1 = Some [7]" using r(2) by simp
  have m: "masked_scores (init_attention True 5 None (1/10) False) (Suc 0) (Suc 0) 2 2 [[[0]]] [[[[0, 0]]]] ! 0 ! 0 ! 0
             = [Fin 0, NegInf]"
    by (simp add: masked_scores_def init_attention_def where_masked_def ProbMask_def triu1_def upt_rec)
  have b: "ctx ! 0 ! 0 ! 0 = Some [1]"
    using r(3) by (simp add: m softmax_row_def weighted_sum_def upt_rec)
  show ?thesis using V sc ctx ix below r(1) a b by blast
qed




text \<open>
  C2. The index tensor that lines 57 and 58 of \<^verbatim>\<open>_prob_QK\<close> build from the one
  \<open>[L_Q, k]\<close> draw holds at \<open>[b, h, q, s]\<close> entry \<open>[q, s]\<close> of the draw, a key
  position below \<open>L_K\<close>, repeated along the feature axis: the sampled key positions
  belong to the query position and are the same in every batch and head. No draw makes
  the sampled positions of two batches or heads differ.
\<close>

theorem sampled_positions_shared_by_batches_and_heads:
  assumes "randint_ok index_sample L_K L_Q k"
    and "b < B" and "h < H" and "b' < B" and "h' < H" and "q < L_Q" and "s < k"
  shows "index_sample_tiled index_sample B H E ! b ! h ! q ! s = replicate E (index_sample ! q ! s) \<and>
         index_sample ! q ! s < L_K \<and>
         index_sample_tiled index_sample B H E ! b ! h = index_sample_tiled index_sample B H E ! b' ! h'"
proof -
  have l: "length index_sample = L_Q" "length (index_sample ! q) = k" "index_sample ! q ! s < L_K"
    using randint_ok_nth[OF assms(1,6,7)] by simp_all
  then have "index_sample_tiled index_sample B H E ! b ! h ! q ! s = replicate E (index_sample ! q ! s)"
    using assms(2,3,6,7) by (simp add: index_sample_tiled_nth)
  moreover have "index_sample_tiled index_sample B H E ! b ! h
                   = index_sample_tiled index_sample B H E ! b' ! h'"
    using assms(2-5) by (simp add: index_sample_tiled_def)
  ultimately show ?thesis using l(3) by simp
qed

theorem sampled_positions_shared_by_batches_and_heads_witness:
  "randint_ok [[1, 0]] 2 1 2 \<and>
   index_sample_tiled [[1, 0]] 2 1 1 ! 0 ! 0 ! 0 ! 0 = [1] \<and>
   index_sample_tiled [[1, 0]] 2 1 1 ! 1 ! 0 ! 0 ! 0 = [1]"
proof -
  have r: "randint_ok [[1, 0]] 2 1 2" by (simp add: randint_ok_def shape_defs)
  show ?thesis
    using r sampled_positions_shared_by_batches_and_heads[OF r, of 0 2 0 1 1 0 0 0 1]
      sampled_positions_shared_by_batches_and_heads[OF r, of 1 2 0 1 1 0 0 0 1]
    by simp
qed

theorem sampled_positions_never_differ_between_batches:
  "\<not> (\<exists>index_sample. index_sample_tiled index_sample 2 2 1 ! 0 ! 0 \<noteq> index_sample_tiled index_sample 2 2 1 ! 1 ! 1)"
  by (simp add: index_sample_tiled_def)



text \<open>
  C9. The result of \<^verbatim>\<open>ProbAttention.forward\<close>, context and weights, is the same for
  any two values of the argument \<open>attn_mask\<close>, the other arguments and the draw being
  equal; so is the result of \<^verbatim>\<open>_update_context\<close>, which assigns the \<open>ProbMask\<close>
  to the argument under the mask flag and does not read it otherwise, and with it the
  result of the lines of \<^verbatim>\<open>forward\<close> that follow \<^verbatim>\<open>_prob_QK\<close>, on any scores and
  any Selection Index.
\<close>

theorem ProbAttention_ignores_attn_mask:
  "ProbAttention_forward self queries keys values m1 index_sample
     = ProbAttention_forward self queries keys values m2 index_sample \<and>
   update_context self context_in V scores index L_Q m1
     = update_context self context_in V scores index L_Q m2 \<and>
   forward_context self D H L_Q' values' scores_top index' m1
     = forward_context self D H L_Q' values' scores_top index' m2"
proof -
  have "ProbAttention_forward self queries keys values m1 index_sample
     = ProbAttention_forward self queries keys values m2 index_sample"
    unfolding ProbAttention_forward_def
    by (simp only: forward_context_attn_mask[of _ _ _ _ _ _ _ m1 m2])
  then show ?thesis using update_context_attn_mask forward_context_attn_mask by blast
qed

theorem ProbAttention_ignores_attn_mask_witness:
  "update_context (init_attention True 5 None (1/10) False)
     [[[[5], [7]]]] [[[[1], [3]]]] [[[[0, 0]]]] [[[0]]] 2 (Some [[[[True, True], [True, True]]]])
     = Inr ([[[Some [1], Some [7]]]], None) \<and>
   forward_context (init_attention True 5 None (1/10) False) 1 1 2
     (swap12 [[[[1]], [[3]]]]) [[[[0, 0], [0, 0]]]] [[[0, 1]]] (Some [[[[True, True], [True, True]]]])
     = Inr ([[[Some [1]], [Some [2]]]], None)"
proof -
  have a: "update_context (init_attention True 5 None (1/10) False)
     [[[[5], [7]]]] [[[[1], [3]]]] [[[[0, 0]]]] [[[0]]] 2 (Some [[[[True, True], [True, True]]]])
     = update_context (init_attention True 5 None (1/10) False)
     [[[[5], [7]]]] [[[[1], [3]]]] [[[[0, 0]]]] [[[0]]] 2 None"
    by (rule ProbAttention_ignores_attn_mask[THEN conjunct2, THEN conjunct1])
  have b: "forward_context (init_attention True 5 None (1/10) False) 1 1 2
     (swap12 [[[[1]], [[3]]]]) [[[[0, 0], [0, 0]]]] [[[0, 1]]] (Some [[[[True, True], [True, True]]]])
     = forward_context (init_attention True 5 None (1/10) False) 1 1 2
     (swap12 [[[[1]], [[3]]]]) [[[[0, 0], [0, 0]]]] [[[0, 1]]] None"
    by (rule ProbAttention_ignores_attn_mask[THEN conjunct2, THEN conjunct2])
  show ?thesis
    using a b update_example_selected context_example_masked by (simp del: One_nat_def)
qed

text \<open>
  C10. The result of \<^verbatim>\<open>ProbAttention.forward\<close> is the same for any two dropout rates,
  the other arguments and the draw being equal, and so is the result of the lines of
  \<^verbatim>\<open>forward\<close> that follow \<^verbatim>\<open>_prob_QK\<close>, where the softmax weights are computed, on
  any scores and any Selection Index. Dense attention does apply its dropout: on one
  input and one keep mask its results for the rates 0 and 1/2 differ.
\<close>

theorem ProbAttention_never_applies_dropout:
  "ProbAttention_forward (self\<lparr>attention_dropout := p\<rparr>) queries keys values attn_mask index_sample
     = ProbAttention_forward (self\<lparr>attention_dropout := p'\<rparr>) queries keys values attn_mask index_sample \<and>
   FullAttention_forward (init_attention True 5 None 0 True)
       [[[[0]], [[0]]]] [[[[0]], [[0]]]] [[[[1]], [[3]]]] None (\<lambda>b h l s. s = 0)
     \<noteq> FullAttention_forward (init_attention True 5 None (1/2) True)
       [[[[0]], [[0]]]] [[[[0]], [[0]]]] [[[[1]], [[3]]]] None (\<lambda>b h l s. s = 0) \<and>
   forward_context (self\<lparr>attention_dropout := p\<rparr>) D H L_Q values' scores_top index attn_mask
     = forward_context (self\<lparr>attention_dropout := p'\<rparr>) D H L_Q values' scores_top index attn_mask"
proof -
  have d: "FullAttention_forward (init_attention True 5 None 0 True)
       [[[[0]], [[0]]]] [[[[0]], [[0]]]] [[[[1]], [[3]]]] None (\<lambda>b h l s. s = 0)
     = Inr ([[[Some [1]], [Some [2]]]], Some [[[Some [1, 0], Some [1/2,1/2]]]])"
    by (simp add: dense_defs)
  have f: "ProbAttention_forward (self\<lparr>attention_dropout := p\<rparr>) queries keys values attn_mask index_sample
     = ProbAttention_forward (self\<lparr>attention_dropout := p'\<rparr>) queries keys values attn_mask index_sample"
    unfolding ProbAttention_forward_def sizes_dropout forward_context_dropout by (rule refl)
  have c: "forward_context (self\<lparr>attention_dropout := p\<rparr>) D H L_Q values' scores_top index attn_mask
     = forward_context (self\<lparr>attention_dropout := p'\<rparr>) D H L_Q values' scores_top index attn_mask"
    by (simp only: forward_context_dropout)
  show ?thesis using d f c by (simp add: dense_example_dropout)
qed

theorem ProbAttention_never_applies_dropout_witness:
  "forward_context (init_attention True 5 None (9/10) False) 1 1 2
     (swap12 [[[[1]], [[3]]]]) [[[[0, 0], [0, 0]]]] [[[0, 1]]] None
   = Inr ([[[Some [1]], [Some [2]]]], None)"
proof -
  have a: "init_attention True 5 None (9/10) False
            = (init_attention True 5 None (1/10) False)\<lparr>attention_dropout := 9/10\<rparr>"
    by (simp add: init_attention_def)
  have b: "(init_attention True 5 None (1/10) False)\<lparr>attention_dropout := 1/10\<rparr>
            = init_attention True 5 None (1/10) False"
    by (simp add: init_attention_def)
  have "forward_context ((init_attention True 5 None (1/10) False)\<lparr>attention_dropout := 9/10\<rparr>) 1 1 2
     (swap12 [[[[1]], [[3]]]]) [[[[0, 0], [0, 0]]]] [[[0, 1]]] None
     = forward_context ((init_attention True 5 None (1/10) False)\<lparr>attention_dropout := 1/10\<rparr>) 1 1 2
     (swap12 [[[[1]], [[3]]]]) [[[[0, 0], [0, 0]]]] [[[0, 1]]] None"
    by (rule ProbAttention_never_applies_dropout[THEN conjunct2, THEN conjunct2])
  then show ?thesis unfolding a[symmetric] b using context_example_masked by (rule trans)
qed



text \<open>
  C8. With the mask flag, no mask passed in and the configured scale \<open>-1\<close>, on two
  positions, dense attention returns NaN as the weights of query 0, and NaN as its
  context row: the weight of query 0 at key 1, which the causal mask forbids, is not 0.
  The mask writes \<open>-inf\<close> into the scores before they are multiplied by the scale, so
  a negative scale makes \<open>+inf\<close> of every masked score.
\<close>

theorem causal_dense_weights_nan_for_negative_scale:
  "TriangularCausalMask 1 2 ! 0 ! 0 ! 0 ! 1 \<and>
   FullAttention_forward (init_attention True 5 (Some (-1)) 0 True)
     [[[[0]], [[0]]]] [[[[0]], [[0]]]] [[[[1]], [[3]]]] None (\<lambda>b h l s. True)
   = Inr ([[[None], [Some [2]]]], Some [[[None, Some [1/2, 1/2]]]]) \<and>
   \<not> (\<exists>V A w. FullAttention_forward (init_attention True 5 (Some (-1)) 0 True)
              [[[[0]], [[0]]]] [[[[0]], [[0]]]] [[[[1]], [[3]]]] None (\<lambda>b h l s. True) = Inr (V, Some A) \<and>
            A ! 0 ! 0 ! 0 = Some w \<and> w ! 1 = 0)"
  by (simp add: dense_example_negative_scale TriangularCausalMask_def triu1_def upt_rec)

theorem causal_dense_weights_nan_for_negative_scale_witness:
  "FullAttention_forward (init_attention True 5 (Some (-1)) 0 True)
     [[[[0]], [[0]]]] [[[[0]], [[0]]]] [[[[1]], [[3]]]] None (\<lambda>b h l s. True)
   \<noteq> Inr ([[[Some [1]], [Some [2]]]], Some [[[Some [1, 0], Some [1/2, 1/2]]]])"
  using causal_dense_weights_nan_for_negative_scale[THEN conjunct2, THEN conjunct1] by simp




end
